theory Spec2Isabelle
  imports Complex_Main
begin

section \<open>Data model\<close>

text \<open>
  Python floats (percent used, hours until reset) are embedded as \<^typ>\<open>real\<close>: the detector
  only compares them with constants and subtracts a constant, so the idealised arithmetic
  follows the comparisons of the source. NaN and the infinities are outside the embedding.
  A \<open>datetime\<close> is the number of seconds since a fixed epoch and a \<open>timedelta\<close> a number of
  seconds; the calendar range of \<open>datetime\<close> and its microsecond resolution are outside the
  embedding. Log output is not part of the embedding.
\<close>

type_synonym datetime = real

text \<open>\<open>state_manager.MonitorState\<close>, fields in the order of the dataclass.\<close>

record MonitorState =
  weekly_was_full :: bool
  weekly_last_percent :: real
  weekly_last_reset_hours :: real
  rate_was_full :: bool
  rate_last_percent :: real
  rate_last_last_reset_hours :: real
  last_check_time :: "string option"
  weekly_reset_notified :: bool
  rate_reset_notified :: bool

text \<open>\<open>MonitorState()\<close>: every field at the default the dataclass declares.\<close>

definition MonitorState_default :: MonitorState where
  "MonitorState_default =
     \<lparr>weekly_was_full = False, weekly_last_percent = 0, weekly_last_reset_hours = 0,
      rate_was_full = False, rate_last_percent = 0, rate_last_last_reset_hours = 0,
      last_check_time = None, weekly_reset_notified = False, rate_reset_notified = False\<rparr>"

section \<open>Reset detector (\<open>state_manager.StateManager\<close>)\<close>

text \<open>The local \<open>is_reset\<close> of \<open>update_and_check_weekly\<close>: the \<open>if\<close>/\<open>elif\<close> chain over the
  three values read from the state before it is updated.\<close>

definition weekly_is_reset :: "MonitorState \<Rightarrow> real \<Rightarrow> real \<Rightarrow> bool" where
  "weekly_is_reset s current_percent reset_hours =
     (let was_full = weekly_was_full s;
          last_percent = weekly_last_percent s;
          last_reset_hours = weekly_last_reset_hours s
      in if was_full \<and> current_percent < 20 then True
         else if last_reset_hours < 1 \<and> reset_hours > 160 then True
         else if last_percent > 90 \<and> current_percent < last_percent - 50 then True
         else False)"

text \<open>\<open>update_and_check_weekly\<close>: the state is threaded through the four assignments, then
  the flag is cleared when a reset was seen, and the result is computed from the state after
  the clear. The last argument is the text \<open>datetime.now().isoformat()\<close>.\<close>

definition update_and_check_weekly ::
    "MonitorState \<Rightarrow> real \<Rightarrow> real \<Rightarrow> string \<Rightarrow> bool \<times> MonitorState" where
  "update_and_check_weekly s current_percent reset_hours now =
     (let is_reset = weekly_is_reset s current_percent reset_hours;
          s1 = s\<lparr>weekly_last_percent := current_percent\<rparr>;
          s2 = s1\<lparr>weekly_last_reset_hours := reset_hours\<rparr>;
          s3 = s2\<lparr>weekly_was_full := (current_percent > 80)\<rparr>;
          s4 = s3\<lparr>last_check_time := Some now\<rparr>;
          s5 = (if is_reset then s4\<lparr>weekly_reset_notified := False\<rparr> else s4)
      in (is_reset \<and> \<not> weekly_reset_notified s5, s5))"

text \<open>The local \<open>is_reset\<close> of \<open>update_and_check_rate\<close>.\<close>

definition rate_is_reset :: "MonitorState \<Rightarrow> real \<Rightarrow> real \<Rightarrow> bool" where
  "rate_is_reset s current_percent reset_hours =
     (let was_full = rate_was_full s;
          last_percent = rate_last_percent s;
          last_reset_hours = rate_last_last_reset_hours s
      in if was_full \<and> current_percent < 20 then True
         else if last_reset_hours < 0.5 \<and> reset_hours > 2 then True
         else if last_percent > 80 \<and> current_percent < last_percent - 40 then True
         else False)"

text \<open>\<open>update_and_check_rate\<close>, the same shape on the \<open>rate_*\<close> fields.\<close>

definition update_and_check_rate ::
    "MonitorState \<Rightarrow> real \<Rightarrow> real \<Rightarrow> string \<Rightarrow> bool \<times> MonitorState" where
  "update_and_check_rate s current_percent reset_hours now =
     (let is_reset = rate_is_reset s current_percent reset_hours;
          s1 = s\<lparr>rate_last_percent := current_percent\<rparr>;
          s2 = s1\<lparr>rate_last_last_reset_hours := reset_hours\<rparr>;
          s3 = s2\<lparr>rate_was_full := (current_percent > 70)\<rparr>;
          s4 = s3\<lparr>last_check_time := Some now\<rparr>;
          s5 = (if is_reset then s4\<lparr>rate_reset_notified := False\<rparr> else s4)
      in (is_reset \<and> \<not> rate_reset_notified s5, s5))"

text \<open>Successive calls of a detector, each with the sample the state already stores
  (a stable snapshot); the list holds one \<open>isoformat\<close> clock text per call. The result is
  the list of returned values and the state after the last call.\<close>

fun stable_weekly_polls :: "MonitorState \<Rightarrow> string list \<Rightarrow> bool list \<times> MonitorState" where
  "stable_weekly_polls s [] = ([], s)"
| "stable_weekly_polls s (t # ts) =
     (let (b, s') = update_and_check_weekly s (weekly_last_percent s)
                      (weekly_last_reset_hours s) t;
          (bs, s'') = stable_weekly_polls s' ts
      in (b # bs, s''))"

fun stable_rate_polls :: "MonitorState \<Rightarrow> string list \<Rightarrow> bool list \<times> MonitorState" where
  "stable_rate_polls s [] = ([], s)"
| "stable_rate_polls s (t # ts) =
     (let (b, s') = update_and_check_rate s (rate_last_percent s)
                      (rate_last_last_reset_hours s) t;
          (bs, s'') = stable_rate_polls s' ts
      in (b # bs, s''))"

section \<open>Persistence (\<open>StateManager._load_state\<close>, \<open>save_state\<close>, \<open>mark_notified\<close>)\<close>

text \<open>The values \<open>json.load\<close> produces. A dictionary keeps its items in order; the keys of
  a dictionary read from JSON are strings and distinct.\<close>

datatype pyval =
    PNone
  | PBool bool
  | PNum real
  | PStr string
  | PList "pyval list"
  | PDict "(string \<times> pyval) list"

text \<open>What the state file gives to \<open>_load_state\<close>: it does not exist; it exists and
  \<open>open\<close> or the read raises; it is read and \<open>json.load\<close> raises; or \<open>json.load\<close> returns
  a value.\<close>

datatype state_file = Missing | Unreadable | Malformed | Json pyval

datatype py_exception = OSError | JSONDecodeError | TypeError

text \<open>All three are subclasses of \<open>Exception\<close>, the class the handler names.\<close>

fun is_Exception :: "py_exception \<Rightarrow> bool" where
  "is_Exception OSError = True"
| "is_Exception JSONDecodeError = True"
| "is_Exception TypeError = True"

text \<open>A dataclass does not check its annotations: the object \<open>MonitorState(**data)\<close> holds
  the values of \<open>data\<close> as they are. \<open>MonitorState_obj\<close> is that object.\<close>

record MonitorState_obj =
  obj_weekly_was_full :: pyval
  obj_weekly_last_percent :: pyval
  obj_weekly_last_reset_hours :: pyval
  obj_rate_was_full :: pyval
  obj_rate_last_percent :: pyval
  obj_rate_last_last_reset_hours :: pyval
  obj_last_check_time :: pyval
  obj_weekly_reset_notified :: pyval
  obj_rate_reset_notified :: pyval

definition field_names :: "string list" where
  "field_names =
     [''weekly_was_full'', ''weekly_last_percent'', ''weekly_last_reset_hours'',
      ''rate_was_full'', ''rate_last_percent'', ''rate_last_last_reset_hours'',
      ''last_check_time'', ''weekly_reset_notified'', ''rate_reset_notified'']"

definition kwarg :: "(string \<times> pyval) list \<Rightarrow> string \<Rightarrow> pyval \<Rightarrow> pyval" where
  "kwarg kwargs k dflt = (case map_of kwargs k of Some v \<Rightarrow> v | None \<Rightarrow> dflt)"

text \<open>The generated \<open>__init__\<close> called with keyword arguments: a keyword that is not a
  field is a \<open>TypeError\<close>, a field that is not given takes its default.\<close>

definition MonitorState_init :: "(string \<times> pyval) list \<Rightarrow> py_exception + MonitorState_obj" where
  "MonitorState_init kwargs =
     (if list_all (\<lambda>k. k \<in> set field_names) (map fst kwargs)
      then Inr \<lparr>obj_weekly_was_full = kwarg kwargs ''weekly_was_full'' (PBool False),
                obj_weekly_last_percent = kwarg kwargs ''weekly_last_percent'' (PNum 0),
                obj_weekly_last_reset_hours = kwarg kwargs ''weekly_last_reset_hours'' (PNum 0),
                obj_rate_was_full = kwarg kwargs ''rate_was_full'' (PBool False),
                obj_rate_last_percent = kwarg kwargs ''rate_last_percent'' (PNum 0),
                obj_rate_last_last_reset_hours =
                  kwarg kwargs ''rate_last_last_reset_hours'' (PNum 0),
                obj_last_check_time = kwarg kwargs ''last_check_time'' PNone,
                obj_weekly_reset_notified = kwarg kwargs ''weekly_reset_notified'' (PBool False),
                obj_rate_reset_notified = kwarg kwargs ''rate_reset_notified'' (PBool False)\<rparr>
      else Inl TypeError)"

text \<open>The body of the \<open>try\<close> in \<open>_load_state\<close>: \<open>open\<close>, \<open>json.load\<close>, then
  \<open>MonitorState(**data)\<close>, where \<open>**\<close> of a value that is not a dictionary is a
  \<open>TypeError\<close>.\<close>

definition load_state_try :: "state_file \<Rightarrow> py_exception + MonitorState_obj" where
  "load_state_try f =
     (case f of
        Missing \<Rightarrow> Inl OSError
      | Unreadable \<Rightarrow> Inl OSError
      | Malformed \<Rightarrow> Inl JSONDecodeError
      | Json data \<Rightarrow>
          (case data of PDict kwargs \<Rightarrow> MonitorState_init kwargs | _ \<Rightarrow> Inl TypeError))"

text \<open>\<open>_load_state\<close>. \<open>Inl\<close> is an exception that leaves the function; the handler
  catches what is an \<open>Exception\<close>, logs it and falls through to \<open>MonitorState()\<close>.\<close>

definition load_state :: "state_file \<Rightarrow> py_exception + MonitorState_obj" where
  "load_state f =
     (if f \<noteq> Missing
      then (case load_state_try f of
              Inr s \<Rightarrow> Inr s
            | Inl e \<Rightarrow> if is_Exception e then MonitorState_init [] else Inl e)
      else MonitorState_init [])"

text \<open>Reading the object with the types the dataclass annotates; \<open>None\<close> when a field holds
  a value of another type.\<close>

fun as_bool :: "pyval \<Rightarrow> bool option" where
  "as_bool (PBool b) = Some b"
| "as_bool _ = None"

fun as_float :: "pyval \<Rightarrow> real option" where
  "as_float (PNum x) = Some x"
| "as_float _ = None"

fun as_optional_str :: "pyval \<Rightarrow> string option option" where
  "as_optional_str PNone = Some None"
| "as_optional_str (PStr t) = Some (Some t)"
| "as_optional_str _ = None"

definition as_MonitorState :: "MonitorState_obj \<Rightarrow> MonitorState option" where
  "as_MonitorState obj =
     Option.bind (as_bool (obj_weekly_was_full obj)) (\<lambda>a1.
     Option.bind (as_float (obj_weekly_last_percent obj)) (\<lambda>a2.
     Option.bind (as_float (obj_weekly_last_reset_hours obj)) (\<lambda>a3.
     Option.bind (as_bool (obj_rate_was_full obj)) (\<lambda>a4.
     Option.bind (as_float (obj_rate_last_percent obj)) (\<lambda>a5.
     Option.bind (as_float (obj_rate_last_last_reset_hours obj)) (\<lambda>a6.
     Option.bind (as_optional_str (obj_last_check_time obj)) (\<lambda>a7.
     Option.bind (as_bool (obj_weekly_reset_notified obj)) (\<lambda>a8.
     Option.bind (as_bool (obj_rate_reset_notified obj)) (\<lambda>a9.
       Some \<lparr>weekly_was_full = a1, weekly_last_percent = a2, weekly_last_reset_hours = a3,
             rate_was_full = a4, rate_last_percent = a5, rate_last_last_reset_hours = a6,
             last_check_time = a7, weekly_reset_notified = a8,
             rate_reset_notified = a9\<rparr>)))))))))"

text \<open>\<open>dataclasses.asdict\<close> of a state, as \<open>json.dump\<close> writes it.\<close>

definition asdict :: "MonitorState \<Rightarrow> pyval" where
  "asdict s =
     PDict [(''weekly_was_full'', PBool (weekly_was_full s)),
            (''weekly_last_percent'', PNum (weekly_last_percent s)),
            (''weekly_last_reset_hours'', PNum (weekly_last_reset_hours s)),
            (''rate_was_full'', PBool (rate_was_full s)),
            (''rate_last_percent'', PNum (rate_last_percent s)),
            (''rate_last_last_reset_hours'', PNum (rate_last_last_reset_hours s)),
            (''last_check_time'', (case last_check_time s of None \<Rightarrow> PNone | Some t \<Rightarrow> PStr t)),
            (''weekly_reset_notified'', PBool (weekly_reset_notified s)),
            (''rate_reset_notified'', PBool (rate_reset_notified s))]"

text \<open>The manager: the state in memory, the file it is saved to, and whether a write to
  that file succeeds.\<close>

record StateManager =
  state :: MonitorState
  disk :: state_file
  writable :: bool

text \<open>\<open>save_state\<close>: a failed write is logged and changes nothing in memory.\<close>

definition save_state :: "StateManager \<Rightarrow> StateManager" where
  "save_state m = (if writable m then m\<lparr>disk := Json (asdict (state m))\<rparr> else m)"

definition mark_notified :: "bool \<Rightarrow> bool \<Rightarrow> StateManager \<Rightarrow> StateManager" where
  "mark_notified weekly rate m =
     (let m1 = (if weekly then m\<lparr>state := (state m)\<lparr>weekly_reset_notified := True\<rparr>\<rparr> else m);
          m2 = (if rate then m1\<lparr>state := (state m1)\<lparr>rate_reset_notified := True\<rparr>\<rparr> else m1)
      in save_state m2)"

section \<open>Scheduling (\<open>monitor.calculate_next_check_time\<close>, \<open>run_monitor\<close>)\<close>

text \<open>\<open>kimi_client.UsageInfo\<close>; \<open>raw_data\<close> is never read by the monitor and is left out.\<close>

record UsageInfo =
  weekly_usage_percent :: real
  weekly_reset_hours :: real
  rate_limit_percent :: real
  rate_limit_reset_hours :: real

definition timedelta_hours :: "real \<Rightarrow> real" where
  "timedelta_hours h = h * 3600"

definition timedelta_minutes :: "real \<Rightarrow> real" where
  "timedelta_minutes m = m * 60"


text \<open>\<open>calculate_next_check_time\<close>; the first argument is the reading of
  \<open>datetime.now()\<close>.\<close>

definition calculate_next_check_time :: "datetime \<Rightarrow> UsageInfo \<Rightarrow> datetime" where
  "calculate_next_check_time now usage =
     (let weekly_reset_time = now + timedelta_hours (weekly_reset_hours usage);
          rate_reset_time = now + timedelta_hours (rate_limit_reset_hours usage);
          weekly_check = weekly_reset_time + timedelta_minutes 5;
          rate_check = rate_reset_time + timedelta_minutes 5
      in if weekly_check < rate_check then weekly_check else rate_check)"


section \<open>One poll (\<open>monitor.check_and_notify\<close>)\<close>

text \<open>A request to the notifier: \<open>send_both_reset_notification(to_email)\<close> or
  \<open>send_quota_reset_notification(to_email, quota_type)\<close>. A notifier answers each request
  with success or failure; both notifiers of the repository catch their own exceptions.\<close>

datatype notification = BothReset string | QuotaReset string string

type_synonym notifier = "notification \<Rightarrow> bool"

text \<open>The clock readings of one poll: the \<open>isoformat\<close> texts the two detector calls store
  and the reading \<open>calculate_next_check_time\<close> takes.\<close>

record poll_times =
  now_weekly :: string
  now_rate :: string
  now_schedule :: datetime

record poll_result =
  manager :: StateManager
  requested :: "notification list"
  check_ok :: bool
  next_check :: "datetime option"

text \<open>The notification part of \<open>check_and_notify\<close> (the statements under
  \<open>notifications_sent = False\<close>): the manager after it and the requests made, in order.\<close>

definition send_notifications ::
    "notifier \<Rightarrow> string \<Rightarrow> bool \<Rightarrow> bool \<Rightarrow> StateManager \<Rightarrow> StateManager \<times> notification list" where
  "send_notifications notify email weekly_reset rate_reset m =
     (if weekly_reset \<and> rate_reset then
        (if notify (BothReset email) then mark_notified True True m else m, [BothReset email])
      else
        (let (m1, sent1) =
               (if weekly_reset then
                  (if notify (QuotaReset email ''Weekly limit'')
                   then mark_notified True False m else m,
                   [QuotaReset email ''Weekly limit''])
                else (m, []));
             (m2, sent2) =
               (if rate_reset then
                  (if notify (QuotaReset email ''5h limit'')
                   then mark_notified False True m1 else m1,
                   [QuotaReset email ''5h limit''])
                else (m1, []))
         in (m2, sent1 @ sent2)))"

text \<open>The two detector calls of \<open>check_and_notify\<close>, weekly first: what each returned and
  the state after both.\<close>

definition check_resets :: "UsageInfo \<Rightarrow> MonitorState \<Rightarrow> poll_times \<Rightarrow> bool \<times> bool \<times> MonitorState" where
  "check_resets usage s ts =
     (let weekly_used = weekly_usage_percent usage;
          hourly_used = rate_limit_percent usage;
          (weekly_reset, s1) =
            update_and_check_weekly s weekly_used (weekly_reset_hours usage) (now_weekly ts);
          (rate_reset, s2) =
            update_and_check_rate s1 hourly_used (rate_limit_reset_hours usage) (now_rate ts)
      in (weekly_reset, rate_reset, s2))"

text \<open>\<open>check_and_notify\<close>. The first argument is what \<open>client.get_usage()\<close> gives (\<open>None\<close>
  also when it raises), the fourth is \<open>config.NOTIFY_EMAIL\<close>.\<close>

definition check_and_notify ::
    "UsageInfo option \<Rightarrow> notifier \<Rightarrow> StateManager \<Rightarrow> string \<Rightarrow> poll_times \<Rightarrow> poll_result" where
  "check_and_notify got notify m email ts =
     (case got of
        None \<Rightarrow> \<lparr>manager = m, requested = [], check_ok = False, next_check = None\<rparr>
      | Some usage \<Rightarrow>
          (let (weekly_reset, rate_reset, s2) = check_resets usage (state m) ts;
               (m1, sent) =
                 send_notifications notify email weekly_reset rate_reset (m\<lparr>state := s2\<rparr>);
               m2 = save_state m1
           in \<lparr>manager = m2, requested = sent, check_ok = True,
               next_check = Some (calculate_next_check_time (now_schedule ts) usage)\<rparr>))"

text \<open>Consecutive polls on one manager and one notifier: the requests of each poll.\<close>

fun run_polls ::
    "notifier \<Rightarrow> string \<Rightarrow> StateManager \<Rightarrow> (UsageInfo option \<times> poll_times) list
       \<Rightarrow> notification list list" where
  "run_polls notify email m [] = []"
| "run_polls notify email m ((got, ts) # rest) =
     (let r = check_and_notify got notify m email ts
      in requested r # run_polls notify email (manager r) rest)"

section \<open>Properties of the detector\<close>

lemma weekly_result: "fst (update_and_check_weekly s p r t) = weekly_is_reset s p r"
  by (simp add: update_and_check_weekly_def Let_def)

lemma rate_result: "fst (update_and_check_rate s p r t) = rate_is_reset s p r"
  by (simp add: update_and_check_rate_def Let_def)

text \<open>
  C1. The value returned by the weekly detector is true exactly when one of the three
  signals holds on the state before the update, with the weekly constants (20; 1 and 160;
  90 and 50); the value returned by the burst detector likewise with its constants
  (20; 0.5 and 2; 80 and 40).
\<close>

theorem detector_signals:
  "fst (update_and_check_weekly s p r t) =
     ((weekly_was_full s \<and> p < 20)
      \<or> (weekly_last_reset_hours s < 1 \<and> r > 160)
      \<or> (weekly_last_percent s > 90 \<and> p < weekly_last_percent s - 50))
   \<and> fst (update_and_check_rate s p r t) =
     ((rate_was_full s \<and> p < 20)
      \<or> (rate_last_last_reset_hours s < 0.5 \<and> r > 2)
      \<or> (rate_last_percent s > 80 \<and> p < rate_last_percent s - 40))"
  by (auto simp add: update_and_check_weekly_def update_and_check_rate_def
      weekly_is_reset_def rate_is_reset_def Let_def)

text \<open>
  C4. When a reset is detected the flag \<open>resetNotified\<close> of the kind is false in the state
  the detector leaves, and the value the detector returns is \<open>is_reset\<close> itself, whatever
  the flag held before the call: setting the flag to any value \<open>b\<close> beforehand does not
  change the returned value.
\<close>

theorem clear_then_check:
  "fst (update_and_check_weekly (s\<lparr>weekly_reset_notified := b\<rparr>) p r t) = weekly_is_reset s p r
   \<and> weekly_reset_notified (snd (update_and_check_weekly (s\<lparr>weekly_reset_notified := b\<rparr>) p r t))
       = (if weekly_is_reset s p r then False else b)
   \<and> fst (update_and_check_rate (s\<lparr>rate_reset_notified := b\<rparr>) p r t) = rate_is_reset s p r
   \<and> rate_reset_notified (snd (update_and_check_rate (s\<lparr>rate_reset_notified := b\<rparr>) p r t))
       = (if rate_is_reset s p r then False else b)"
  by (simp add: update_and_check_weekly_def update_and_check_rate_def
      weekly_is_reset_def rate_is_reset_def Let_def)

text \<open>
  C5. After a call of the weekly detector with the sample \<open>(p, r)\<close> the state holds
  \<open>weekly_last_percent = p\<close>, \<open>weekly_last_reset_hours = r\<close> and
  \<open>weekly_was_full = (p > 80)\<close>, whether or not a reset was detected; after a call of the
  burst detector it holds \<open>rate_last_percent = p\<close>, \<open>rate_last_last_reset_hours = r\<close> and
  \<open>rate_was_full = (p > 70)\<close>.
\<close>

theorem last_observation_stored:
  "weekly_last_percent (snd (update_and_check_weekly s p r t)) = p
   \<and> weekly_last_reset_hours (snd (update_and_check_weekly s p r t)) = r
   \<and> weekly_was_full (snd (update_and_check_weekly s p r t)) = (p > 80)
   \<and> rate_last_percent (snd (update_and_check_rate s p r t)) = p
   \<and> rate_last_last_reset_hours (snd (update_and_check_rate s p r t)) = r
   \<and> rate_was_full (snd (update_and_check_rate s p r t)) = (p > 70)"
  by (simp add: update_and_check_weekly_def update_and_check_rate_def Let_def)

text \<open>
  C10. The weekly detector leaves the four \<open>rate_*\<close> fields as they were, and the burst
  detector leaves the four \<open>weekly_*\<close> fields as they were: apart from the fields of its own
  kind a detector call writes \<open>last_check_time\<close> only.
\<close>

theorem detectors_do_not_interfere:
  "rate_was_full (snd (update_and_check_weekly s p r t)) = rate_was_full s
   \<and> rate_last_percent (snd (update_and_check_weekly s p r t)) = rate_last_percent s
   \<and> rate_last_last_reset_hours (snd (update_and_check_weekly s p r t))
       = rate_last_last_reset_hours s
   \<and> rate_reset_notified (snd (update_and_check_weekly s p r t)) = rate_reset_notified s
   \<and> weekly_was_full (snd (update_and_check_rate s p r t)) = weekly_was_full s
   \<and> weekly_last_percent (snd (update_and_check_rate s p r t)) = weekly_last_percent s
   \<and> weekly_last_reset_hours (snd (update_and_check_rate s p r t))
       = weekly_last_reset_hours s
   \<and> weekly_reset_notified (snd (update_and_check_rate s p r t)) = weekly_reset_notified s
   \<and> last_check_time (snd (update_and_check_weekly s p r t)) = Some t
   \<and> last_check_time (snd (update_and_check_rate s p r t)) = Some t"
  by (simp add: update_and_check_weekly_def update_and_check_rate_def Let_def)




text \<open>A state records an observation when \<open>was_full\<close> is the comparison of the stored
  percent with the threshold. Every detector call leaves such a state, and the default state
  is one.\<close>

lemma was_full_follows_percent:
  "weekly_was_full (snd (update_and_check_weekly s p r t))
     = (weekly_last_percent (snd (update_and_check_weekly s p r t)) > 80)
   \<and> rate_was_full (snd (update_and_check_rate s p r t))
     = (rate_last_percent (snd (update_and_check_rate s p r t)) > 70)
   \<and> weekly_was_full MonitorState_default = (weekly_last_percent MonitorState_default > 80)
   \<and> rate_was_full MonitorState_default = (rate_last_percent MonitorState_default > 70)"
  by (simp add: update_and_check_weekly_def update_and_check_rate_def MonitorState_default_def
      Let_def)

lemma weekly_stable_no_reset:
  "weekly_was_full s = (weekly_last_percent s > 80) \<Longrightarrow>
   update_and_check_weekly s (weekly_last_percent s) (weekly_last_reset_hours s) t
     = (False, s\<lparr>last_check_time := Some t\<rparr>)"
  by (auto simp add: update_and_check_weekly_def weekly_is_reset_def Let_def)

lemma rate_stable_no_reset:
  "rate_was_full s = (rate_last_percent s > 70) \<Longrightarrow>
   update_and_check_rate s (rate_last_percent s) (rate_last_last_reset_hours s) t
     = (False, s\<lparr>last_check_time := Some t\<rparr>)"
  by (auto simp add: update_and_check_rate_def rate_is_reset_def Let_def)

lemma stable_weekly_polls_quiet:
  "weekly_was_full s = (weekly_last_percent s > 80) \<Longrightarrow>
   fst (stable_weekly_polls s ts) = replicate (length ts) False
   \<and> weekly_reset_notified (snd (stable_weekly_polls s ts)) = weekly_reset_notified s"
proof (induction ts arbitrary: s)
  case Nil
  then show ?case by simp
next
  case (Cons t ts)
  have inv: "weekly_was_full (s\<lparr>last_check_time := Some t\<rparr>)
      = (weekly_last_percent (s\<lparr>last_check_time := Some t\<rparr>) > 80)"
    using Cons.prems by simp
  show ?case
    using Cons.IH [OF inv] weekly_stable_no_reset [OF Cons.prems, of t]
    by (simp add: split_def)
qed

lemma stable_rate_polls_quiet:
  "rate_was_full s = (rate_last_percent s > 70) \<Longrightarrow>
   fst (stable_rate_polls s ts) = replicate (length ts) False
   \<and> rate_reset_notified (snd (stable_rate_polls s ts)) = rate_reset_notified s"
proof (induction ts arbitrary: s)
  case Nil
  then show ?case by simp
next
  case (Cons t ts)
  have inv: "rate_was_full (s\<lparr>last_check_time := Some t\<rparr>)
      = (rate_last_percent (s\<lparr>last_check_time := Some t\<rparr>) > 70)"
    using Cons.prems by simp
  show ?case
    using Cons.IH [OF inv] rate_stable_no_reset [OF Cons.prems, of t]
    by (simp add: split_def)
qed

text \<open>
  C8. On a state that records an observation (\<open>was_full\<close> is the comparison of the stored
  percent with the threshold, as every detector call leaves it) and whose \<open>resetNotified\<close> is
  true, any number of detector calls with the stored sample all return false, and the flag
  is still true afterwards. In particular this holds for the state a detector call on any
  state with any sample leaves, once \<open>mark_notified\<close> has set the flag.
\<close>

theorem stable_polls_never_notify:
  "(weekly_was_full s = (weekly_last_percent s > 80) \<and> weekly_reset_notified s \<longrightarrow>
      fst (stable_weekly_polls s ts) = replicate (length ts) False
      \<and> weekly_reset_notified (snd (stable_weekly_polls s ts)))
   \<and> (rate_was_full s = (rate_last_percent s > 70) \<and> rate_reset_notified s \<longrightarrow>
      fst (stable_rate_polls s ts) = replicate (length ts) False
      \<and> rate_reset_notified (snd (stable_rate_polls s ts)))
   \<and> fst (stable_weekly_polls
        ((snd (update_and_check_weekly s0 p r t0))\<lparr>weekly_reset_notified := True\<rparr>) ts)
       = replicate (length ts) False
   \<and> fst (stable_rate_polls
        ((snd (update_and_check_rate s0 p r t0))\<lparr>rate_reset_notified := True\<rparr>) ts)
       = replicate (length ts) False"
proof -
  let ?w = "(snd (update_and_check_weekly s0 p r t0))\<lparr>weekly_reset_notified := True\<rparr>"
  let ?r = "(snd (update_and_check_rate s0 p r t0))\<lparr>rate_reset_notified := True\<rparr>"
  have w: "weekly_was_full ?w = (weekly_last_percent ?w > 80)"
    by (simp add: update_and_check_weekly_def Let_def)
  have r: "rate_was_full ?r = (rate_last_percent ?r > 70)"
    by (simp add: update_and_check_rate_def Let_def)
  show ?thesis
    using stable_weekly_polls_quiet [of s ts] stable_rate_polls_quiet [of s ts]
      stable_weekly_polls_quiet [OF w, of ts] stable_rate_polls_quiet [OF r, of ts]
    by simp
qed

text \<open>The theorem at the state a poll of (100 percent, 168 h; 100 percent, 5 h) and a
  delivered notification leave, polled three more times.\<close>

theorem stable_polls_never_notify_witness:
  "weekly_was_full
     \<lparr>weekly_was_full = True, weekly_last_percent = 100, weekly_last_reset_hours = 168,
      rate_was_full = True, rate_last_percent = 100, rate_last_last_reset_hours = 5,
      last_check_time = Some ''t0'', weekly_reset_notified = True,
      rate_reset_notified = True\<rparr>
   \<and> fst (stable_weekly_polls
     \<lparr>weekly_was_full = True, weekly_last_percent = 100, weekly_last_reset_hours = 168,
      rate_was_full = True, rate_last_percent = 100, rate_last_last_reset_hours = 5,
      last_check_time = Some ''t0'', weekly_reset_notified = True,
      rate_reset_notified = True\<rparr> [''t1'', ''t2'', ''t3'']) = [False, False, False]
   \<and> fst (stable_rate_polls
     \<lparr>weekly_was_full = True, weekly_last_percent = 100, weekly_last_reset_hours = 168,
      rate_was_full = True, rate_last_percent = 100, rate_last_last_reset_hours = 5,
      last_check_time = Some ''t0'', weekly_reset_notified = True,
      rate_reset_notified = True\<rparr> [''t1'', ''t2'', ''t3'']) = [False, False, False]"
  using stable_polls_never_notify [of
     "\<lparr>weekly_was_full = True, weekly_last_percent = 100, weekly_last_reset_hours = 168,
      rate_was_full = True, rate_last_percent = 100, rate_last_last_reset_hours = 5,
      last_check_time = Some ''t0'', weekly_reset_notified = True,
      rate_reset_notified = True\<rparr>" "[''t1'', ''t2'', ''t3'']" MonitorState_default 0 0 "''t''"]
  by (simp add: numeral_3_eq_3)

section \<open>Properties of a poll\<close>

lemma save_state_state: "state (save_state m) = state m"
  by (simp add: save_state_def)

lemma mark_notified_state:
  "state (mark_notified w r m) =
     (state m)\<lparr>weekly_reset_notified := (w \<or> weekly_reset_notified (state m)),
               rate_reset_notified := (r \<or> rate_reset_notified (state m))\<rparr>"
  by (simp add: mark_notified_def save_state_def Let_def)

lemma send_notifications_requested:
  "snd (send_notifications n e wr rr m) =
     (if wr \<and> rr then [BothReset e]
      else (if wr then [QuotaReset e ''Weekly limit''] else [])
           @ (if rr then [QuotaReset e ''5h limit''] else []))"
  by (simp add: send_notifications_def split_def Let_def)

lemma send_notifications_state:
  "state (fst (send_notifications n e wr rr m)) =
     (state m)\<lparr>weekly_reset_notified :=
                 ((wr \<and> n (if rr then BothReset e else QuotaReset e ''Weekly limit''))
                  \<or> weekly_reset_notified (state m)),
               rate_reset_notified :=
                 ((rr \<and> n (if wr then BothReset e else QuotaReset e ''5h limit''))
                  \<or> rate_reset_notified (state m))\<rparr>"
  by (simp add: send_notifications_def split_def Let_def mark_notified_state)

lemma check_and_notify_requested:
  "requested (check_and_notify (Some u) n m e ts) =
     snd (send_notifications n e (fst (check_resets u (state m) ts))
            (fst (snd (check_resets u (state m) ts)))
            (m\<lparr>state := snd (snd (check_resets u (state m) ts))\<rparr>))"
  by (simp add: check_and_notify_def split_def Let_def)

lemma check_and_notify_state:
  "state (manager (check_and_notify (Some u) n m e ts)) =
     state (fst (send_notifications n e (fst (check_resets u (state m) ts))
            (fst (snd (check_resets u (state m) ts)))
            (m\<lparr>state := snd (snd (check_resets u (state m) ts))\<rparr>)))"
  by (simp add: check_and_notify_def split_def Let_def save_state_state)

lemma check_and_notify_cong:
  assumes "state m = state m'"
  shows "requested (check_and_notify got n m e ts) = requested (check_and_notify got n m' e ts)
       \<and> state (manager (check_and_notify got n m e ts))
           = state (manager (check_and_notify got n m' e ts))"
proof (cases got)
  case None
  then show ?thesis using assms by (simp add: check_and_notify_def)
next
  case (Some u)
  then show ?thesis using assms
    by (simp add: check_and_notify_requested check_and_notify_state
        send_notifications_requested send_notifications_state)
qed

lemma run_polls_cong:
  "state m = state m' \<Longrightarrow> run_polls n e m xs = run_polls n e m' xs"
proof (induction xs arbitrary: m m')
  case Nil
  then show ?case by simp
next
  case (Cons x xs)
  obtain got ts where x: "x = (got, ts)" by (cases x)
  have c: "requested (check_and_notify got n m e ts) = requested (check_and_notify got n m' e ts)"
    and s: "state (manager (check_and_notify got n m e ts))
           = state (manager (check_and_notify got n m' e ts))"
    using check_and_notify_cong [OF Cons.prems] by simp_all
  show ?case using Cons.IH [OF s] c by (simp add: x Let_def)
qed

lemma run_polls_step:
  assumes "check_resets u (state m) ts = (wr, rr, s2)"
  shows "run_polls n e m ((Some u, ts) # rest) =
       (if wr \<and> rr then [BothReset e]
        else (if wr then [QuotaReset e ''Weekly limit''] else [])
             @ (if rr then [QuotaReset e ''5h limit''] else []))
       # run_polls n e
           (m\<lparr>state := s2\<lparr>weekly_reset_notified :=
                 ((wr \<and> n (if rr then BothReset e else QuotaReset e ''Weekly limit''))
                  \<or> weekly_reset_notified s2),
               rate_reset_notified :=
                 ((rr \<and> n (if wr then BothReset e else QuotaReset e ''5h limit''))
                  \<or> rate_reset_notified s2)\<rparr>\<rparr>) rest"
proof -
  let ?r = "check_and_notify (Some u) n m e ts"
  have a: "requested ?r = (if wr \<and> rr then [BothReset e]
        else (if wr then [QuotaReset e ''Weekly limit''] else [])
             @ (if rr then [QuotaReset e ''5h limit''] else []))"
    by (simp add: check_and_notify_requested send_notifications_requested assms)
  have b: "state (manager ?r) = state (m\<lparr>state := s2\<lparr>weekly_reset_notified :=
                 ((wr \<and> n (if rr then BothReset e else QuotaReset e ''Weekly limit''))
                  \<or> weekly_reset_notified s2),
               rate_reset_notified :=
                 ((rr \<and> n (if wr then BothReset e else QuotaReset e ''5h limit''))
                  \<or> rate_reset_notified s2)\<rparr>\<rparr>)"
    by (simp add: check_and_notify_state send_notifications_state assms)
  show ?thesis
    using run_polls_cong [OF b, of n e rest] a by (simp add: Let_def)
qed


lemma check_resets_flags:
  "weekly_reset_notified (snd (snd (check_resets u s ts)))
     = (if fst (check_resets u s ts) then False else weekly_reset_notified s)
   \<and> rate_reset_notified (snd (snd (check_resets u s ts)))
     = (if fst (snd (check_resets u s ts)) then False else rate_reset_notified s)"
  by (simp add: check_resets_def split_def Let_def update_and_check_weekly_def update_and_check_rate_def)

text \<open>
  C7. In one poll with a snapshot, let \<open>s1\<close> be the state the two detector calls leave and
  \<open>s2\<close> the state at the end of the poll. The requests are one combined notification when
  both detectors fired, otherwise one single-kind notification for each that fired. The
  flag of a kind goes from false in \<open>s1\<close> to true in \<open>s2\<close> exactly when its detector fired
  and the notifier answered the request that covers it with success; when the detector
  fired, the flag in \<open>s2\<close> is the notifier's answer (so false when delivery failed), and
  when it did not fire the flag is the one the poll started with.
\<close>

theorem notified_iff_delivered:
  "(let (weekly_reset, rate_reset, s1) = check_resets u (state m) ts;
        r = check_and_notify (Some u) notify m email ts;
        s2 = state (manager r);
        weekly_request =
          (if rate_reset then BothReset email else QuotaReset email ''Weekly limit'');
        rate_request =
          (if weekly_reset then BothReset email else QuotaReset email ''5h limit'')
    in requested r =
         (if weekly_reset \<and> rate_reset then [BothReset email]
          else (if weekly_reset then [weekly_request] else [])
               @ (if rate_reset then [rate_request] else []))
       \<and> (\<not> weekly_reset_notified s1 \<and> weekly_reset_notified s2)
            = (weekly_reset \<and> notify weekly_request)
       \<and> (\<not> rate_reset_notified s1 \<and> rate_reset_notified s2)
            = (rate_reset \<and> notify rate_request)
       \<and> weekly_reset_notified s2
            = (if weekly_reset then notify weekly_request else weekly_reset_notified (state m))
       \<and> rate_reset_notified s2
            = (if rate_reset then notify rate_request else rate_reset_notified (state m)))"
  using check_resets_flags [of u "state m" ts]
  by (auto simp add: split_def Let_def check_and_notify_requested check_and_notify_state
      send_notifications_requested send_notifications_state)

text \<open>The four polls of the scenario, from the default state, with a notifier that always
  succeeds, for any address, any clock readings and any state of the file.\<close>

lemma scenario_requests:
  "run_polls (\<lambda>_. True) email \<lparr>state = MonitorState_default, disk = d, writable = w\<rparr>
     [(Some \<lparr>weekly_usage_percent = 84, weekly_reset_hours = 166,
             rate_limit_percent = 66, rate_limit_reset_hours = 3\<rparr>, t1),
      (Some \<lparr>weekly_usage_percent = 84, weekly_reset_hours = 166,
             rate_limit_percent = 66, rate_limit_reset_hours = 3\<rparr>, t2),
      (Some \<lparr>weekly_usage_percent = 5, weekly_reset_hours = 0.05,
             rate_limit_percent = 5, rate_limit_reset_hours = 0.05\<rparr>, t3),
      (Some \<lparr>weekly_usage_percent = 100, weekly_reset_hours = 168,
             rate_limit_percent = 100, rate_limit_reset_hours = 5\<rparr>, t4)]
   = [[BothReset email], [], [QuotaReset email ''Weekly limit''], [BothReset email]]"
proof -
  let ?n = "\<lambda>_::notification. True"
  let ?u1 = "\<lparr>weekly_usage_percent = 84, weekly_reset_hours = 166,
             rate_limit_percent = 66, rate_limit_reset_hours = 3\<rparr>"
  let ?u3 = "\<lparr>weekly_usage_percent = 5, weekly_reset_hours = 0.05,
             rate_limit_percent = 5, rate_limit_reset_hours = 0.05\<rparr>"
  let ?u4 = "\<lparr>weekly_usage_percent = 100, weekly_reset_hours = 168,
             rate_limit_percent = 100, rate_limit_reset_hours = 5\<rparr>"
  let ?m0 = "\<lparr>state = MonitorState_default, disk = d, writable = w\<rparr>"
  let ?B1 = "\<lparr>weekly_was_full = True, weekly_last_percent = 84, weekly_last_reset_hours = 166,
      rate_was_full = False, rate_last_percent = 66, rate_last_last_reset_hours = 3,
      last_check_time = Some (now_rate t1), weekly_reset_notified = False,
      rate_reset_notified = False\<rparr>"
  let ?A1 = "?B1\<lparr>weekly_reset_notified := True, rate_reset_notified := True\<rparr>"
  let ?A2 = "?A1\<lparr>last_check_time := Some (now_rate t2)\<rparr>"
  let ?B3 = "\<lparr>weekly_was_full = False, weekly_last_percent = 5, weekly_last_reset_hours = 0.05,
      rate_was_full = False, rate_last_percent = 5, rate_last_last_reset_hours = 0.05,
      last_check_time = Some (now_rate t3), weekly_reset_notified = False,
      rate_reset_notified = True\<rparr>"
  let ?A3 = "?B3\<lparr>weekly_reset_notified := True\<rparr>"
  let ?B4 = "\<lparr>weekly_was_full = True, weekly_last_percent = 100, weekly_last_reset_hours = 168,
      rate_was_full = True, rate_last_percent = 100, rate_last_last_reset_hours = 5,
      last_check_time = Some (now_rate t4), weekly_reset_notified = False,
      rate_reset_notified = False\<rparr>"
  have c1: "check_resets ?u1 (state ?m0) t1 = (True, True, ?B1)"
    by (simp add: check_resets_def update_and_check_weekly_def update_and_check_rate_def
        weekly_is_reset_def rate_is_reset_def MonitorState_default_def Let_def)
  have c2: "check_resets ?u1 (state (?m0\<lparr>state := ?A1\<rparr>)) t2 = (False, False, ?A2)"
    by (simp add: check_resets_def update_and_check_weekly_def update_and_check_rate_def
        weekly_is_reset_def rate_is_reset_def Let_def)
  have c3: "check_resets ?u3 (state (?m0\<lparr>state := ?A2\<rparr>)) t3 = (True, False, ?B3)"
    by (simp add: check_resets_def update_and_check_weekly_def update_and_check_rate_def
        weekly_is_reset_def rate_is_reset_def Let_def)
  have c4: "check_resets ?u4 (state (?m0\<lparr>state := ?A3\<rparr>)) t4 = (True, True, ?B4)"
    by (simp add: check_resets_def update_and_check_weekly_def update_and_check_rate_def
        weekly_is_reset_def rate_is_reset_def Let_def)
  have p4: "run_polls ?n email (?m0\<lparr>state := ?A3\<rparr>) [(Some ?u4, t4)] = [[BothReset email]]"
    using run_polls_step [OF c4, of ?n email "[]"]
    by (simp del: run_polls.simps(2))
  have p3: "run_polls ?n email (?m0\<lparr>state := ?A2\<rparr>) [(Some ?u3, t3), (Some ?u4, t4)]
      = [[QuotaReset email ''Weekly limit''], [BothReset email]]"
    using run_polls_step [OF c3, of ?n email "[(Some ?u4, t4)]"] p4
    by (simp del: run_polls.simps(2))
  have p2: "run_polls ?n email (?m0\<lparr>state := ?A1\<rparr>)
        [(Some ?u1, t2), (Some ?u3, t3), (Some ?u4, t4)]
      = [[], [QuotaReset email ''Weekly limit''], [BothReset email]]"
    using run_polls_step [OF c2, of ?n email "[(Some ?u3, t3), (Some ?u4, t4)]"] p3
    by (simp del: run_polls.simps(2))
  show ?thesis
    using run_polls_step [OF c1, of ?n email "[(Some ?u1, t2), (Some ?u3, t3), (Some ?u4, t4)]"] p2
    by (simp del: run_polls.simps(2))
qed

text \<open>
  C3, as the code has it. From the default state and with a notifier that always succeeds,
  the four polls (84, 166 h; 66, 3 h), the same again, (5, 0.05 h; 5, 0.05 h) and
  (100, 168 h; 100, 5 h) request a combined notification on the first poll, nothing on the
  second, one weekly notification on the third and a combined notification on the fourth.
\<close>

theorem four_polls_notifications:
  "run_polls (\<lambda>_. True) email \<lparr>state = MonitorState_default, disk = d, writable = w\<rparr>
     [(Some \<lparr>weekly_usage_percent = 84, weekly_reset_hours = 166,
             rate_limit_percent = 66, rate_limit_reset_hours = 3\<rparr>, t1),
      (Some \<lparr>weekly_usage_percent = 84, weekly_reset_hours = 166,
             rate_limit_percent = 66, rate_limit_reset_hours = 3\<rparr>, t2),
      (Some \<lparr>weekly_usage_percent = 5, weekly_reset_hours = 0.05,
             rate_limit_percent = 5, rate_limit_reset_hours = 0.05\<rparr>, t3),
      (Some \<lparr>weekly_usage_percent = 100, weekly_reset_hours = 168,
             rate_limit_percent = 100, rate_limit_reset_hours = 5\<rparr>, t4)]
   = [[BothReset email], [], [QuotaReset email ''Weekly limit''], [BothReset email]]"
  by (rule scenario_requests)

text \<open>The claim as written (nothing on the first three polls, one combined notification on
  the fourth) fails: the first poll already requests a combined notification.\<close>

theorem four_polls_not_only_fourth:
  "run_polls (\<lambda>_. True) ''user@example.com''
     \<lparr>state = MonitorState_default, disk = Missing, writable = True\<rparr>
     [(Some \<lparr>weekly_usage_percent = 84, weekly_reset_hours = 166,
             rate_limit_percent = 66, rate_limit_reset_hours = 3\<rparr>,
       \<lparr>now_weekly = ''t1'', now_rate = ''t1'', now_schedule = 0\<rparr>),
      (Some \<lparr>weekly_usage_percent = 84, weekly_reset_hours = 166,
             rate_limit_percent = 66, rate_limit_reset_hours = 3\<rparr>,
       \<lparr>now_weekly = ''t2'', now_rate = ''t2'', now_schedule = 600\<rparr>),
      (Some \<lparr>weekly_usage_percent = 5, weekly_reset_hours = 0.05,
             rate_limit_percent = 5, rate_limit_reset_hours = 0.05\<rparr>,
       \<lparr>now_weekly = ''t3'', now_rate = ''t3'', now_schedule = 1200\<rparr>),
      (Some \<lparr>weekly_usage_percent = 100, weekly_reset_hours = 168,
             rate_limit_percent = 100, rate_limit_reset_hours = 5\<rparr>,
       \<lparr>now_weekly = ''t4'', now_rate = ''t4'', now_schedule = 1800\<rparr>)]
   \<noteq> [[], [], [], [BothReset ''user@example.com'']]"
  by (simp only: scenario_requests) simp

section \<open>Properties of the schedule\<close>


section \<open>Properties of loading\<close>





text \<open>A dictionary whose keys are all fields is accepted with the values it gives: no
  exception is raised, and the object holds a string where a number is annotated.\<close>

lemma load_state_keeps_values:
  "\<exists>obj. load_state (Json (PDict [(''weekly_last_percent'', PStr ''high'')])) = Inr obj
     \<and> obj_weekly_last_percent obj = PStr ''high'' \<and> as_MonitorState obj = None"
  by (simp add: load_state_def load_state_try_def MonitorState_init_def field_names_def
      kwarg_def as_MonitorState_def)



end
